theory Spec2Isabelle
  imports Complex_Main
begin

section \<open>JavaScript values used by the payment routes\<close>

text \<open>
  A JavaScript Number is an IEEE double. The model keeps the four kinds of value a double
  can have and represents a finite one by the exact rational it denotes; the rounding of
  a double is not modelled. The constants the routes compare with (1, 1000, 10000, 50000,
  100000) are integers, so a comparison of a parsed decimal with them has the same result
  on doubles and on rationals.
\<close>

datatype jsnum = NaN | NegInf | Fin rat | PosInf

text \<open>The relational operators \<^verbatim>\<open><\<close>, \<^verbatim>\<open>>\<close>, \<^verbatim>\<open><=\<close>: false whenever an operand is NaN.\<close>

fun js_lt :: "jsnum \<Rightarrow> jsnum \<Rightarrow> bool" where
  "js_lt NaN _ = False"
| "js_lt _ NaN = False"
| "js_lt (Fin a) (Fin b) = (a < b)"
| "js_lt _ NegInf = False"
| "js_lt NegInf _ = True"
| "js_lt PosInf _ = False"
| "js_lt (Fin a) PosInf = True"

definition js_gt :: "jsnum \<Rightarrow> jsnum \<Rightarrow> bool" where
  "js_gt a b = js_lt b a"

definition js_le :: "jsnum \<Rightarrow> jsnum \<Rightarrow> bool" where
  "js_le a b = (a \<noteq> NaN \<and> b \<noteq> NaN \<and> \<not> js_lt b a)"

text \<open>The operator \<^verbatim>\<open>+\<close> on two Numbers.\<close>

fun js_add :: "jsnum \<Rightarrow> jsnum \<Rightarrow> jsnum" where
  "js_add NaN _ = NaN"
| "js_add _ NaN = NaN"
| "js_add (Fin a) (Fin b) = Fin (a + b)"
| "js_add PosInf NegInf = NaN"
| "js_add NegInf PosInf = NaN"
| "js_add PosInf _ = PosInf"
| "js_add NegInf _ = NegInf"
| "js_add (Fin a) b = b"

text \<open>\<^verbatim>\<open>x || d\<close> on a Number \<open>x\<close>: NaN and zero are falsy.\<close>

definition num_or :: "jsnum \<Rightarrow> jsnum \<Rightarrow> jsnum" where
  "num_or x d = (if x = NaN \<or> x = Fin 0 then d else x)"

text \<open>\<^verbatim>\<open>s || d\<close> on a string that may be undefined: undefined and the empty string are falsy.\<close>

definition str_or :: "string option \<Rightarrow> 'a \<Rightarrow> (string \<Rightarrow> 'a) \<Rightarrow> 'a" where
  "str_or s d f = (case s of None \<Rightarrow> d | Some v \<Rightarrow> if v = [] then d else f v)"

subsection \<open>Strings\<close>

text \<open>
  Strings are modelled over the 8-bit characters of HOL; the routes' patterns accept ASCII
  letters and digits only. White space is the ASCII part of what \<^verbatim>\<open>trim\<close> and the
  class \<^verbatim>\<open>\s\<close> recognise; case mapping is the ASCII part of \<^verbatim>\<open>toUpperCase\<close>.
\<close>

definition isWhiteSpace :: "char \<Rightarrow> bool" where
  "isWhiteSpace c = (let n = (of_char c :: nat) in (9 \<le> n \<and> n \<le> 13) \<or> n = 32)"

definition isDigit :: "char \<Rightarrow> bool" where
  "isDigit c = (let n = (of_char c :: nat) in 48 \<le> n \<and> n \<le> 57)"

definition isUpper :: "char \<Rightarrow> bool" where
  "isUpper c = (let n = (of_char c :: nat) in 65 \<le> n \<and> n \<le> 90)"

definition isLower :: "char \<Rightarrow> bool" where
  "isLower c = (let n = (of_char c :: nat) in 97 \<le> n \<and> n \<le> 122)"

definition trim :: "string \<Rightarrow> string" where
  "trim s = rev (dropWhile isWhiteSpace (rev (dropWhile isWhiteSpace s)))"

definition toUpperChar :: "char \<Rightarrow> char" where
  "toUpperChar c = (if isLower c then char_of ((of_char c :: nat) - 32) else c)"

definition toUpperCase :: "string \<Rightarrow> string" where
  "toUpperCase s = map toUpperChar s"

subsection \<open>parseFloat\<close>

text \<open>
  \<^verbatim>\<open>parseFloat\<close> skips leading white space and reads the longest prefix that is a
  decimal literal: an optional sign, then \<^verbatim>\<open>Infinity\<close>, or digits with an optional
  fraction and an optional exponent. Without such a prefix the result is NaN.
\<close>

definition digitVal :: "char \<Rightarrow> nat" where
  "digitVal c = (of_char c :: nat) - 48"

definition digitsVal :: "string \<Rightarrow> nat" where
  "digitsVal ds = foldl (\<lambda>acc c. 10 * acc + digitVal c) 0 ds"

definition exponentPart :: "string \<Rightarrow> int" where
  "exponentPart r =
     (case r of
        [] \<Rightarrow> 0
      | e # r1 \<Rightarrow>
          if e = CHR ''e'' \<or> e = CHR ''E'' then
            (let (neg, r2) = (case r1 of
                                [] \<Rightarrow> (False, r1)
                              | c # r' \<Rightarrow> if c = CHR ''-'' then (True, r')
                                          else if c = CHR ''+'' then (False, r')
                                          else (False, r1));
                 ds = takeWhile isDigit r2
             in if ds = [] then 0
                else if neg then - int (digitsVal ds) else int (digitsVal ds))
          else 0)"

definition scale10 :: "rat \<Rightarrow> int \<Rightarrow> rat" where
  "scale10 m e = (if 0 \<le> e then m * 10 ^ nat e else m / 10 ^ nat (- e))"

definition parseFloat :: "string \<Rightarrow> jsnum" where
  "parseFloat s =
     (let t = dropWhile isWhiteSpace s;
          (neg, t1) = (case t of
                         [] \<Rightarrow> (False, t)
                       | c # r \<Rightarrow> if c = CHR ''-'' then (True, r)
                                  else if c = CHR ''+'' then (False, r)
                                  else (False, t))
      in if take 8 t1 = ''Infinity'' then (if neg then NegInf else PosInf)
         else
           (let ip = takeWhile isDigit t1;
                r1 = dropWhile isDigit t1;
                (fp, r2) = (case r1 of
                              [] \<Rightarrow> ([], r1)
                            | c # r \<Rightarrow> if c = CHR ''.''
                                       then (takeWhile isDigit r, dropWhile isDigit r)
                                       else ([], r1))
            in if ip = [] \<and> fp = [] then NaN
               else
                 (let m = scale10 (of_nat (digitsVal (ip @ fp))) (- int (length fp));
                      v = scale10 m (exponentPart r2)
                  in Fin (if neg then - v else v))))"

text \<open>\<^verbatim>\<open>parseFloat(x)\<close> on a value that may be undefined: \<^verbatim>\<open>parseFloat(undefined)\<close> is NaN.\<close>

definition parseFloatOpt :: "string option \<Rightarrow> jsnum" where
  "parseFloatOpt x = (case x of None \<Rightarrow> NaN | Some s \<Rightarrow> parseFloat s)"

section \<open>Fee computation\<close>

text \<open>
  The fee branch of \<^verbatim>\<open>POST /make-payment\<close>:
  \<^verbatim>\<open>if (amountNum <= 1000) fees = 15.00; else if (amountNum <= 10000) fees = 25.00; else fees = 50.00;\<close>
\<close>

definition calculateFees :: "jsnum \<Rightarrow> rat" where
  "calculateFees amountNum =
     (if js_le amountNum (Fin 1000) then 15
      else if js_le amountNum (Fin 10000) then 25
      else 50)"

section \<open>The Transaction model\<close>

text \<open>
  The Mongoose schema of \<^verbatim>\<open>models/Transaction.js\<close>. The status enum is a datatype; a
  persisted Number is a rational (the schema's cast refuses NaN); identifiers and dates
  are numbers (a date is its epoch time in milliseconds). The fields \<^verbatim>\<open>exchangeRate\<close>
  and \<^verbatim>\<open>metadata\<close> are never read by the routes and are left out.
\<close>

datatype status = PENDING | VERIFIED | PROCESSING | COMPLETED | REJECTED | CANCELLED

record transaction =
  tid :: nat
  userId :: nat
  amount :: rat
  currency :: string
  provider :: string
  recipientName :: string
  recipientAccountNumber :: string
  recipientBankCode :: string
  swiftCode :: string
  recipientBankName :: string
  recipientBankAddress :: "string option"
  purpose :: "string option"
  reference :: "string option"
  status :: status
  fees :: rat
  totalAmount :: rat
  verificationCode :: "string option"
  verifiedAt :: "int option"
  processedAt :: "int option"
  completedAt :: "int option"
  rejectionReason :: "string option"
  ipAddress :: "string option"
  userAgent :: "string option"
  createdAt :: int
  updatedAt :: int

text \<open>The collection: the persisted documents, in insertion order.\<close>

type_synonym store = "transaction list"

text \<open>
  What a request brings from outside the handler: the clock, the server's offset from UTC
  (the local day is computed in a zone of fixed offset), the identifier the driver gives
  a new document, the hexadecimal text of \<^verbatim>\<open>crypto.randomBytes(3)\<close>, and the
  caller's address and user agent.
\<close>

record env =
  clock :: int
  tzOffset :: int
  freshId :: nat
  randomHex :: string
  reqIp :: "string option"
  reqUserAgent :: "string option"

text \<open>The two environment variables the payment route reads.\<close>

record config =
  MIN_PAYMENT_AMOUNT :: "string option"
  MAX_PAYMENT_AMOUNT :: "string option"

subsection \<open>The object given to \<^verbatim>\<open>Transaction.create\<close>\<close>

record new_transaction =
  doc_userId :: nat
  doc_amount :: jsnum
  doc_currency :: "string option"
  doc_provider :: string
  doc_recipientName :: "string option"
  doc_recipientAccountNumber :: "string option"
  doc_recipientBankCode :: string
  doc_swiftCode :: string
  doc_recipientBankName :: "string option"
  doc_recipientBankAddress :: "string option"
  doc_purpose :: "string option"
  doc_reference :: "string option"
  doc_fees :: rat
  doc_totalAmount :: jsnum
  doc_ipAddress :: "string option"
  doc_userAgent :: "string option"

subsection \<open>The schema's patterns\<close>

definition isAlpha :: "char \<Rightarrow> bool" where
  "isAlpha c = (isUpper c \<or> isLower c)"

text \<open>A pattern \<^verbatim>\<open>^[class]{lo,hi}$\<close>.\<close>

definition matchClass :: "(char \<Rightarrow> bool) \<Rightarrow> nat \<Rightarrow> nat \<Rightarrow> string \<Rightarrow> bool" where
  "matchClass P lo hi s = (lo \<le> length s \<and> length s \<le> hi \<and> list_all P s)"

text \<open>\<^verbatim>\<open>/^[A-Z]{6}[A-Z0-9]{2,5}$/\<close>\<close>

definition matchSwiftCode :: "string \<Rightarrow> bool" where
  "matchSwiftCode s =
     (8 \<le> length s \<and> length s \<le> 11 \<and> list_all isUpper (take 6 s)
      \<and> list_all (\<lambda>c. isUpper c \<or> isDigit c) (drop 6 s))"

text \<open>\<^verbatim>\<open>/^[A-Za-z\s]{3,50}$/\<close> and \<^verbatim>\<open>/^[A-Za-z\s]{3,100}$/\<close>\<close>

definition matchRecipientName :: "string \<Rightarrow> bool" where
  "matchRecipientName = matchClass (\<lambda>c. isAlpha c \<or> isWhiteSpace c) 3 50"

definition matchBankName :: "string \<Rightarrow> bool" where
  "matchBankName = matchClass (\<lambda>c. isAlpha c \<or> isWhiteSpace c) 3 100"

text \<open>\<^verbatim>\<open>/^[A-Za-z0-9]{8,20}$/\<close>\<close>

definition matchRecipientAccount :: "string \<Rightarrow> bool" where
  "matchRecipientAccount = matchClass (\<lambda>c. isAlpha c \<or> isDigit c) 8 20"

text \<open>\<^verbatim>\<open>/^[A-Z0-9]{8,11}$/\<close>\<close>

definition matchBankCode :: "string \<Rightarrow> bool" where
  "matchBankCode = matchClass (\<lambda>c. isUpper c \<or> isDigit c) 8 11"

text \<open>\<^verbatim>\<open>/^[A-Za-z0-9\s]{0,100}$/\<close> and \<^verbatim>\<open>/^[A-Za-z0-9]{0,50}$/\<close>\<close>

definition matchPurpose :: "string \<Rightarrow> bool" where
  "matchPurpose = matchClass (\<lambda>c. isAlpha c \<or> isDigit c \<or> isWhiteSpace c) 0 100"

definition matchReference :: "string \<Rightarrow> bool" where
  "matchReference = matchClass (\<lambda>c. isAlpha c \<or> isDigit c) 0 50"

subsection \<open>Schema validation\<close>

text \<open>
  Mongoose runs the validators of a path in the order \<^verbatim>\<open>required\<close> first, then the
  others as the schema lists them, and reports the first that fails; every path is
  validated, so the error holds one message for each failing path. \<^verbatim>\<open>required\<close> on a
  string fails for undefined, null and the empty string; \<^verbatim>\<open>match\<close> passes on null and
  on the empty string; the length validators pass on null.
\<close>

type_synonym path_error = "string \<times> string"

definition firstFailure :: "(bool \<times> string) list \<Rightarrow> string option" where
  "firstFailure vs = map_option snd (find (\<lambda>v. \<not> fst v) vs)"

definition requiredString :: "string option \<Rightarrow> bool" where
  "requiredString v = (case v of None \<Rightarrow> False | Some s \<Rightarrow> s \<noteq> [])"

definition matchValidator :: "(string \<Rightarrow> bool) \<Rightarrow> string option \<Rightarrow> bool" where
  "matchValidator re v = (case v of None \<Rightarrow> True | Some s \<Rightarrow> if s = [] then True else re s)"

definition minlengthValidator :: "nat \<Rightarrow> string option \<Rightarrow> bool" where
  "minlengthValidator n v = (case v of None \<Rightarrow> True | Some s \<Rightarrow> n \<le> length s)"

definition maxlengthValidator :: "nat \<Rightarrow> string option \<Rightarrow> bool" where
  "maxlengthValidator n v = (case v of None \<Rightarrow> True | Some s \<Rightarrow> length s \<le> n)"

definition enumValidator :: "string list \<Rightarrow> string option \<Rightarrow> bool" where
  "enumValidator values v = (case v of None \<Rightarrow> True | Some s \<Rightarrow> s \<in> set values)"

definition validate_amount :: "jsnum \<Rightarrow> string option" where
  \<open>validate_amount a =
     (if a = NaN then Some ''Cast to Number failed for value "NaN" (type number) at path "amount"''
      else firstFailure
        [(\<not> js_lt a (Fin (1 / 100)), ''Amount must be at least 0.01''),
         (\<not> js_gt a (Fin (99999999999 / 100)), ''Amount cannot exceed 999,999,999.99'')])\<close>

definition validate_totalAmount :: "jsnum \<Rightarrow> string option" where
  \<open>validate_totalAmount a =
     (if a = NaN
      then Some ''Cast to Number failed for value "NaN" (type number) at path "totalAmount"''
      else None)\<close>

definition validate_currency :: "string option \<Rightarrow> string option" where
  "validate_currency v = firstFailure
     [(requiredString v, ''Currency is required''),
      (enumValidator [''USD'', ''EUR'', ''GBP'', ''ZAR'', ''JPY'', ''CAD'', ''AUD'', ''CHF'',
                      ''SEK'', ''NOK''] v,
       ''Currency must be one of: USD, EUR, GBP, ZAR, JPY, CAD, AUD, CHF, SEK, NOK'')]"

definition validate_provider :: "string option \<Rightarrow> string option" where
  "validate_provider v = firstFailure
     [(requiredString v, ''Provider is required''),
      (enumValidator [''SWIFT'', ''FEDWIRE'', ''CHIPS''] v,
       ''Provider must be one of: SWIFT, FEDWIRE, CHIPS'')]"

definition validate_recipientName :: "string option \<Rightarrow> string option" where
  "validate_recipientName v = firstFailure
     [(requiredString v, ''Recipient name is required''),
      (minlengthValidator 3 v, ''Recipient name must be at least 3 characters''),
      (maxlengthValidator 50 v, ''Recipient name cannot exceed 50 characters''),
      (matchValidator matchRecipientName v,
       ''Recipient name can only contain letters and spaces'')]"

definition validate_recipientAccountNumber :: "string option \<Rightarrow> string option" where
  "validate_recipientAccountNumber v = firstFailure
     [(requiredString v, ''Recipient account number is required''),
      (matchValidator matchRecipientAccount v,
       ''Recipient account number must be 8-20 alphanumeric characters'')]"

definition validate_recipientBankCode :: "string option \<Rightarrow> string option" where
  "validate_recipientBankCode v = firstFailure
     [(requiredString v, ''Recipient bank code is required''),
      (matchValidator matchBankCode v,
       ''Recipient bank code must be 8-11 alphanumeric characters'')]"

definition validate_swiftCode :: "string option \<Rightarrow> string option" where
  "validate_swiftCode v = firstFailure
     [(requiredString v, ''SWIFT code is required''),
      (matchValidator matchSwiftCode v,
       ''SWIFT code must be in format: 6 letters followed by 2-5 alphanumeric characters'')]"

definition validate_recipientBankName :: "string option \<Rightarrow> string option" where
  "validate_recipientBankName v = firstFailure
     [(requiredString v, ''Recipient bank name is required''),
      (minlengthValidator 3 v, ''Bank name must be at least 3 characters''),
      (maxlengthValidator 100 v, ''Bank name cannot exceed 100 characters''),
      (matchValidator matchBankName v, ''Bank name can only contain letters and spaces'')]"

definition validate_recipientBankAddress :: "string option \<Rightarrow> string option" where
  "validate_recipientBankAddress v = firstFailure
     [(maxlengthValidator 500 v, ''Bank address cannot exceed 500 characters'')]"

definition validate_purpose :: "string option \<Rightarrow> string option" where
  "validate_purpose v = firstFailure
     [(maxlengthValidator 100 v, ''Purpose cannot exceed 100 characters''),
      (matchValidator matchPurpose v,
       ''Purpose can only contain letters, numbers, and spaces'')]"

definition validate_reference :: "string option \<Rightarrow> string option" where
  "validate_reference v = firstFailure
     [(maxlengthValidator 50 v, ''Reference cannot exceed 50 characters''),
      (matchValidator matchReference v, ''Reference can only contain letters and numbers'')]"

definition validate_fees :: "rat \<Rightarrow> string option" where
  "validate_fees f = firstFailure [(0 \<le> f, ''Fees cannot be negative'')]"

definition onPath :: "string \<Rightarrow> string option \<Rightarrow> path_error list" where
  "onPath p r = (case r of None \<Rightarrow> [] | Some m \<Rightarrow> [(p, m)])"

definition validateSync :: "new_transaction \<Rightarrow> path_error list" where
  "validateSync d =
     onPath ''amount'' (validate_amount (doc_amount d))
     @ onPath ''currency'' (validate_currency (doc_currency d))
     @ onPath ''provider'' (validate_provider (Some (doc_provider d)))
     @ onPath ''recipientName'' (validate_recipientName (doc_recipientName d))
     @ onPath ''recipientAccountNumber''
         (validate_recipientAccountNumber (doc_recipientAccountNumber d))
     @ onPath ''recipientBankCode'' (validate_recipientBankCode (Some (doc_recipientBankCode d)))
     @ onPath ''swiftCode'' (validate_swiftCode (Some (doc_swiftCode d)))
     @ onPath ''recipientBankName'' (validate_recipientBankName (doc_recipientBankName d))
     @ onPath ''recipientBankAddress''
         (validate_recipientBankAddress (doc_recipientBankAddress d))
     @ onPath ''purpose'' (validate_purpose (doc_purpose d))
     @ onPath ''reference'' (validate_reference (doc_reference d))
     @ onPath ''fees'' (validate_fees (doc_fees d))
     @ onPath ''totalAmount'' (validate_totalAmount (doc_totalAmount d))"

subsection \<open>Saving\<close>

text \<open>
  The \<^verbatim>\<open>pre('save')\<close> hook:
  \<^verbatim>\<open>this.totalAmount = parseFloat(this.amount) + parseFloat(this.fees || 0);\<close>
  and a verification code when none is set. On a persisted Number \<^verbatim>\<open>parseFloat\<close>
  returns the number.
\<close>

definition pre_save :: "env \<Rightarrow> transaction \<Rightarrow> transaction" where
  "pre_save e t =
     t\<lparr>totalAmount := amount t + (if fees t = 0 then 0 else fees t),
       verificationCode :=
         (case verificationCode t of
            None \<Rightarrow> Some (toUpperCase (randomHex e))
          | Some c \<Rightarrow> if c = [] then Some (toUpperCase (randomHex e)) else Some c)\<rparr>"

text \<open>
  \<^verbatim>\<open>save()\<close> on a document that is in the collection: the hook runs, the schema's
  timestamps option stamps \<^verbatim>\<open>updatedAt\<close>, and the document replaces the persisted one
  with its identifier. The paths a transition modifies have no validator that can fail.
\<close>

definition save :: "env \<Rightarrow> transaction \<Rightarrow> store \<Rightarrow> transaction \<times> store" where
  "save e t db =
     (let t' = (pre_save e t)\<lparr>updatedAt := clock e\<rparr>
      in (t', map (\<lambda>d. if tid d = tid t' then t' else d) db))"

subsection \<open>Instance methods\<close>

definition markAsVerified :: "env \<Rightarrow> transaction \<Rightarrow> store \<Rightarrow> transaction \<times> store" where
  "markAsVerified e t db = save e (t\<lparr>status := VERIFIED, verifiedAt := Some (clock e)\<rparr>) db"

definition markAsProcessing :: "env \<Rightarrow> transaction \<Rightarrow> store \<Rightarrow> transaction \<times> store" where
  "markAsProcessing e t db = save e (t\<lparr>status := PROCESSING, processedAt := Some (clock e)\<rparr>) db"

definition markAsCompleted :: "env \<Rightarrow> transaction \<Rightarrow> store \<Rightarrow> transaction \<times> store" where
  "markAsCompleted e t db = save e (t\<lparr>status := COMPLETED, completedAt := Some (clock e)\<rparr>) db"

definition markAsRejected ::
  "env \<Rightarrow> string option \<Rightarrow> transaction \<Rightarrow> store \<Rightarrow> transaction \<times> store" where
  "markAsRejected e reason t db = save e (t\<lparr>status := REJECTED, rejectionReason := reason\<rparr>) db"

definition markAsCancelled :: "env \<Rightarrow> transaction \<Rightarrow> store \<Rightarrow> transaction \<times> store" where
  "markAsCancelled e t db = save e (t\<lparr>status := CANCELLED\<rparr>) db"

text \<open>The five transitions as one operation, to speak about all of them at once.\<close>

datatype transition = Verify | BeginProcessing | Complete | Reject "string option" | Cancel

fun transition_op :: "env \<Rightarrow> transition \<Rightarrow> transaction \<Rightarrow> store \<Rightarrow> transaction \<times> store" where
  "transition_op e Verify t db = markAsVerified e t db"
| "transition_op e BeginProcessing t db = markAsProcessing e t db"
| "transition_op e Complete t db = markAsCompleted e t db"
| "transition_op e (Reject reason) t db = markAsRejected e reason t db"
| "transition_op e Cancel t db = markAsCancelled e t db"

fun target :: "transition \<Rightarrow> status" where
  "target Verify = VERIFIED"
| "target BeginProcessing = PROCESSING"
| "target Complete = COMPLETED"
| "target (Reject reason) = REJECTED"
| "target Cancel = CANCELLED"

subsection \<open>Creating and finding\<close>

datatype error = ValidationError "path_error list"

text \<open>
  \<^verbatim>\<open>Transaction.create(obj)\<close>: the object is cast by the schema (status defaults to
  PENDING), validated, passed through the hook and inserted with the timestamps. A failed
  validation throws and nothing is inserted.
\<close>

definition Transaction_create ::
  "env \<Rightarrow> store \<Rightarrow> new_transaction \<Rightarrow> error + transaction \<times> store" where
  "Transaction_create e db d =
     (case (doc_amount d, doc_totalAmount d, doc_currency d, doc_recipientName d,
            doc_recipientAccountNumber d, doc_recipientBankName d) of
        (Fin a, Fin tot, Some cur, Some rname, Some racc, Some bname) \<Rightarrow>
          if validateSync d = [] then
            (let t = pre_save e
                   \<lparr>tid = freshId e,
                    userId = doc_userId d,
                    amount = a,
                    currency = cur,
                    provider = doc_provider d,
                    recipientName = rname,
                    recipientAccountNumber = racc,
                    recipientBankCode = doc_recipientBankCode d,
                    swiftCode = doc_swiftCode d,
                    recipientBankName = bname,
                    recipientBankAddress = doc_recipientBankAddress d,
                    purpose = doc_purpose d,
                    reference = doc_reference d,
                    status = PENDING,
                    fees = doc_fees d,
                    totalAmount = tot,
                    verificationCode = None,
                    verifiedAt = None,
                    processedAt = None,
                    completedAt = None,
                    rejectionReason = None,
                    ipAddress = doc_ipAddress d,
                    userAgent = doc_userAgent d,
                    createdAt = clock e,
                    updatedAt = clock e\<rparr>
             in Inr (t, db @ [t]))
          else Inl (ValidationError (validateSync d))
      | _ \<Rightarrow> Inl (ValidationError (validateSync d)))"

text \<open>\<^verbatim>\<open>Transaction.findOne({ _id: id, userId })\<close>\<close>

definition findOne :: "store \<Rightarrow> nat \<Rightarrow> nat \<Rightarrow> transaction option" where
  "findOne db i uid = find (\<lambda>t. tid t = i \<and> userId t = uid) db"

section \<open>Responses\<close>

text \<open>
  A response is its status code and the fields of its JSON body. A template literal keeps
  the numbers it interpolates.
\<close>

datatype tpart = Lit string | Interp jsnum

datatype jval =
    JNull
  | JBool bool
  | JNum rat
  | JStr string
  | JTemplate "tpart list"
  | JDate int
  | JId nat
  | JStatus status
  | JObj "(string \<times> jval) list"
  | JArr "jval list"

datatype response = Response (code: nat) (json: "(string \<times> jval) list")

definition jopt :: "string option \<Rightarrow> jval" where
  "jopt v = (case v of None \<Rightarrow> JNull | Some s \<Rightarrow> JStr s)"

definition jdate :: "int option \<Rightarrow> jval" where
  "jdate v = (case v of None \<Rightarrow> JNull | Some d \<Rightarrow> JDate d)"

text \<open>\<^verbatim>\<open>res.status(c).json({ success: false, error: m })\<close>\<close>

definition failure :: "nat \<Rightarrow> jval \<Rightarrow> response" where
  "failure c m = Response c [(''success'', JBool False), (''error'', m)]"

subsection \<open>The error handler\<close>

text \<open>\<^verbatim>\<open>String.prototype.includes\<close>\<close>

fun includes_str :: "string \<Rightarrow> string \<Rightarrow> bool" where
  "includes_str [] sub = (sub = [])"
| "includes_str (c # cs) sub = (take (length sub) (c # cs) = sub \<or> includes_str cs sub)"

text \<open>
  The message Mongoose gives a validation error of the model \<^verbatim>\<open>Transaction\<close>.
\<close>

fun joinWith :: "string \<Rightarrow> string list \<Rightarrow> string" where
  "joinWith sep [] = []"
| "joinWith sep [x] = x"
| "joinWith sep (x # y # ys) = x @ sep @ joinWith sep (y # ys)"

definition errorMessage :: "error \<Rightarrow> string" where
  "errorMessage err =
     (case err of ValidationError errs \<Rightarrow>
        ''Transaction validation failed: ''
        @ joinWith '', '' (map (\<lambda>(p, m). p @ '': '' @ m) errs))"

text \<open>
  \<^verbatim>\<open>errorHandler\<close> on an error thrown inside \<^verbatim>\<open>asyncHandler\<close>. The name of a
  Mongoose validation error is \<^verbatim>\<open>ValidationError\<close> and it has neither a
  \<^verbatim>\<open>statusCode\<close> nor a \<^verbatim>\<open>code\<close>, so of the handler's branches only those on the
  message can apply, each overriding the one before; without one the status is 500. The
  fields added in development mode and the request id are left out.
\<close>

definition errorHandler :: "env \<Rightarrow> error \<Rightarrow> response" where
  "errorHandler e err =
     (let msg = errorMessage err;
          r0 = (msg, None);
          r1 = (if includes_str msg ''XSS''
                then (''Potentially malicious input detected'', Some 400) else r0);
          r2 = (if includes_str msg ''SQL injection''
                then (''Invalid input format'', Some 400) else r1);
          r3 = (if includes_str msg ''Insufficient funds''
                then (''Insufficient funds for this transaction'', Some 400) else r2);
          r4 = (if includes_str msg ''Invalid SWIFT code''
                then (''Invalid SWIFT code provided'', Some 400) else r3);
          r5 = (if includes_str msg ''Account locked''
                then (''Account is temporarily locked due to security concerns'', Some 423)
                else r4);
          statusCode = (case snd r5 of None \<Rightarrow> 500 | Some c \<Rightarrow> c)
      in Response statusCode
           [(''success'', JBool False), (''error'', JStr (fst r5)),
            (''timestamp'', JDate (clock e))])"

section \<open>The payment routes\<close>

text \<open>
  The handlers of \<^verbatim>\<open>routes/payments.js\<close> in its Mongoose variant, the one that fits
  \<^verbatim>\<open>models/Transaction.js\<close>; the repository also keeps an earlier Sequelize variant
  of the file, with the same range check, daily limit and fees, whose model is not among
  the sources. \<^verbatim>\<open>req.body\<close> maps field names to the
  submitted strings; a field that was not sent is undefined. \<^verbatim>\<open>req.user\<close> is the
  authenticated principal, given by its identifier. Identifiers are well-formed: a
  malformed \<^verbatim>\<open>:id\<close> is not modelled.
\<close>

type_synonym body = "string \<rightharpoonup> string"

definition minAmount :: "config \<Rightarrow> jsnum" where
  "minAmount cfg = num_or (parseFloatOpt (MIN_PAYMENT_AMOUNT cfg)) (Fin 1)"

definition maxAmount :: "config \<Rightarrow> jsnum" where
  "maxAmount cfg = num_or (parseFloatOpt (MAX_PAYMENT_AMOUNT cfg)) (Fin 100000)"

text \<open>
  \<^verbatim>\<open>today.setHours(0, 0, 0, 0)\<close> and \<^verbatim>\<open>tomorrow.setDate(tomorrow.getDate() + 1)\<close>:
  local midnight and the midnight after it, 24 hours later in a zone of fixed offset.
\<close>

definition startOfDay :: "env \<Rightarrow> int" where
  "startOfDay e = clock e - (clock e + tzOffset e) mod 86400000"

definition nextDay :: "int \<Rightarrow> int" where
  "nextDay d = d + 86400000"

text \<open>
  \<^verbatim>\<open>Transaction.find({ userId, status: { $in: [...] }, createdAt: { $gte: today, $lt: tomorrow } })\<close>
\<close>

definition todayTransactions :: "env \<Rightarrow> store \<Rightarrow> nat \<Rightarrow> transaction list" where
  "todayTransactions e db uid =
     (let today = startOfDay e;
          tomorrow = nextDay today
      in filter (\<lambda>tx. userId tx = uid
                     \<and> status tx \<in> set [PENDING, VERIFIED, PROCESSING, COMPLETED]
                     \<and> today \<le> createdAt tx \<and> createdAt tx < tomorrow) db)"

text \<open>\<^verbatim>\<open>todayTransactions.reduce((sum, tx) => sum + parseFloat(tx.amount), 0)\<close>\<close>

definition todayTotal :: "transaction list \<Rightarrow> rat" where
  "todayTotal txs = foldl (\<lambda>sum tx. sum + amount tx) 0 txs"

definition dailyLimit :: rat where
  "dailyLimit = 50000"

text \<open>The object literal the handler passes to \<^verbatim>\<open>Transaction.create\<close>.\<close>

definition payment_doc ::
  "env \<Rightarrow> nat \<Rightarrow> body \<Rightarrow> jsnum \<Rightarrow> rat \<Rightarrow> jsnum \<Rightarrow> string \<Rightarrow> new_transaction" where
  "payment_doc e uid b amountNum fs totalAmt normalizedSwiftCode =
     \<lparr>doc_userId = uid,
      doc_amount = amountNum,
      doc_currency = b ''currency'',
      doc_provider = str_or (b ''provider'') ''SWIFT'' (\<lambda>p. p),
      doc_recipientName = b ''recipientName'',
      doc_recipientAccountNumber = b ''recipientAccountNumber'',
      doc_recipientBankCode = normalizedSwiftCode,
      doc_swiftCode = normalizedSwiftCode,
      doc_recipientBankName = b ''recipientBankName'',
      doc_recipientBankAddress = str_or (b ''recipientBankAddress'') None Some,
      doc_purpose = str_or (b ''purpose'') None Some,
      doc_reference = str_or (b ''reference'') None Some,
      doc_fees = fs,
      doc_totalAmount = totalAmt,
      doc_ipAddress = reqIp e,
      doc_userAgent = reqUserAgent e\<rparr>"

text \<open>The transaction object of the 201 response.\<close>

definition created_view :: "transaction \<Rightarrow> jval" where
  "created_view t = JObj
     [(''id'', JId (tid t)),
      (''amount'', JNum (amount t)),
      (''currency'', JStr (currency t)),
      (''provider'', JStr (provider t)),
      (''recipientName'', JStr (recipientName t)),
      (''recipientAccountNumber'', JStr (recipientAccountNumber t)),
      (''swiftCode'', JStr (swiftCode t)),
      (''recipientBankName'', JStr (recipientBankName t)),
      (''purpose'', jopt (purpose t)),
      (''reference'', jopt (reference t)),
      (''fees'', JNum (fees t)),
      (''totalAmount'', JNum (totalAmount t)),
      (''status'', JStatus (status t)),
      (''verificationCode'', jopt (verificationCode t)),
      (''createdAt'', JDate (createdAt t))]"

text \<open>\<^verbatim>\<open>swiftCode.trim().toUpperCase()\<close>\<close>

definition normalizeSwiftCode :: "string \<Rightarrow> string" where
  "normalizeSwiftCode sc = toUpperCase (trim sc)"

text \<open>
  \<^verbatim>\<open>POST /api/payments/make-payment\<close>, after authentication and rate limiting. The
  result is the response and the collection after the request; the audit log is not part
  of the model.
\<close>

definition make_payment ::
  "config \<Rightarrow> env \<Rightarrow> store \<Rightarrow> nat \<Rightarrow> body \<Rightarrow> response \<times> store" where
  "make_payment cfg e db uid b =
     (let amountNum = parseFloatOpt (b ''amount'')
      in if js_lt amountNum (minAmount cfg) \<or> js_gt amountNum (maxAmount cfg) then
           (failure 400
              (JTemplate [Lit ''Amount must be between '', Interp (minAmount cfg),
                          Lit '' and '', Interp (maxAmount cfg)]), db)
         else if js_gt (js_add (Fin (todayTotal (todayTransactions e db uid))) amountNum)
                   (Fin dailyLimit) then
           (failure 400 (JStr ''Daily transaction limit exceeded''), db)
         else
           (let fs = calculateFees amountNum;
                totalAmt = js_add amountNum (Fin fs)
            in case b ''swiftCode'' of
                 None \<Rightarrow> (failure 400 (JStr ''SWIFT code is required''), db)
               | Some sc \<Rightarrow>
                   if sc = [] then (failure 400 (JStr ''SWIFT code is required''), db)
                   else if \<not> matchSwiftCode (normalizeSwiftCode sc) then
                     (failure 400 (JStr (''Invalid SWIFT code format. Must be 8-11 characters: ''
                        @ ''6 letters followed by 2-5 alphanumeric characters'')), db)
                   else
                     (case Transaction_create e db
                             (payment_doc e uid b amountNum fs totalAmt (normalizeSwiftCode sc)) of
                        Inl err \<Rightarrow> (errorHandler e err, db)
                      | Inr (t, db') \<Rightarrow>
                          (Response 201
                             [(''success'', JBool True),
                              (''message'', JStr ''Payment transaction created successfully''),
                              (''data'', JObj [(''transaction'', created_view t)])], db'))))"

text \<open>The transaction object of \<^verbatim>\<open>GET /api/payments/transactions/:id\<close>.\<close>

definition detail_view :: "transaction \<Rightarrow> jval" where
  "detail_view t = JObj
     [(''id'', JId (tid t)),
      (''amount'', JNum (amount t)),
      (''currency'', JStr (currency t)),
      (''provider'', JStr (provider t)),
      (''recipientName'', JStr (recipientName t)),
      (''recipientAccountNumber'', JStr (recipientAccountNumber t)),
      (''swiftCode'', JStr (swiftCode t)),
      (''recipientBankName'', JStr (recipientBankName t)),
      (''recipientBankAddress'', jopt (recipientBankAddress t)),
      (''purpose'', jopt (purpose t)),
      (''reference'', jopt (reference t)),
      (''fees'', JNum (fees t)),
      (''totalAmount'', JNum (totalAmount t)),
      (''status'', JStatus (status t)),
      (''verificationCode'', jopt (verificationCode t)),
      (''createdAt'', JDate (createdAt t)),
      (''updatedAt'', JDate (updatedAt t)),
      (''verifiedAt'', jdate (verifiedAt t)),
      (''processedAt'', jdate (processedAt t)),
      (''completedAt'', jdate (completedAt t)),
      (''rejectionReason'', jopt (rejectionReason t))]"

definition get_transaction :: "store \<Rightarrow> nat \<Rightarrow> nat \<Rightarrow> response" where
  "get_transaction db uid i =
     (case findOne db i uid of
        None \<Rightarrow> failure 404 (JStr ''Transaction not found'')
      | Some t \<Rightarrow>
          Response 200
            [(''success'', JBool True), (''data'', JObj [(''transaction'', detail_view t)])])"

text \<open>\<^verbatim>\<open>PUT /api/payments/transactions/:id/cancel\<close>\<close>

definition cancel_transaction :: "env \<Rightarrow> store \<Rightarrow> nat \<Rightarrow> nat \<Rightarrow> response \<times> store" where
  "cancel_transaction e db uid i =
     (case findOne db i uid of
        None \<Rightarrow> (failure 404 (JStr ''Transaction not found''), db)
      | Some t \<Rightarrow>
          if status t \<noteq> PENDING then
            (failure 400 (JStr ''Only pending transactions can be cancelled''), db)
          else
            (let (t', db') = markAsCancelled e t db
             in (Response 200
                   [(''success'', JBool True),
                    (''message'', JStr ''Transaction cancelled successfully''),
                    (''data'', JObj [(''transaction'',
                       JObj [(''id'', JId (tid t')), (''status'', JStatus (status t'))])])],
                 db')))"

section \<open>Input validation\<close>

subsection \<open>The request validation middleware\<close>

text \<open>
  \<^verbatim>\<open>sanitizeInput\<close> on a string: control characters are removed, the string goes
  through the \<^verbatim>\<open>xss\<close> filter (a library function, a parameter here), then through
  \<^verbatim>\<open>validator.escape\<close>, and is trimmed.
\<close>

definition isControl :: "char \<Rightarrow> bool" where
  "isControl c = (let n = (of_char c :: nat) in n \<le> 31 \<or> n = 127)"

definition escapeChar :: "char \<Rightarrow> string" where
  "escapeChar c =
     (if c = CHR ''&'' then ''&amp;''
      else if c = CHR 0x22 then ''&quot;''
      else if c = CHR 0x27 then ''&#x27;''
      else if c = CHR ''<'' then ''&lt;''
      else if c = CHR ''>'' then ''&gt;''
      else if c = CHR ''/'' then ''&#x2F;''
      else if c = CHR 0x5C then ''&#x5C;''
      else if c = CHR 0x60 then ''&#96;''
      else [c])"

definition escape :: "string \<Rightarrow> string" where
  "escape s = concat (map escapeChar s)"

definition sanitizeInput :: "(string \<Rightarrow> string) \<Rightarrow> string \<Rightarrow> string" where
  "sanitizeInput xss input = trim (escape (xss (filter (\<lambda>c. \<not> isControl c) input)))"






subsection \<open>Field validators\<close>

text \<open>
  \<^verbatim>\<open>validateAmount\<close> and \<^verbatim>\<open>validateSwiftCode\<close> of the same module. The result is
  the error message, or the validated value (for an amount with its numeric value).
\<close>

text \<open>\<^verbatim>\<open>/^\d+(\.\d{1,2})?$/\<close>\<close>

definition matchAmount :: "string \<Rightarrow> bool" where
  "matchAmount s =
     (let ip = takeWhile isDigit s;
          r = dropWhile isDigit s
      in ip \<noteq> []
         \<and> (case r of
               [] \<Rightarrow> True
             | c # fp \<Rightarrow> c = CHR ''.'' \<and> 1 \<le> length fp \<and> length fp \<le> 2 \<and> list_all isDigit fp))"

definition validateAmount ::
  "(string \<Rightarrow> string) \<Rightarrow> config \<Rightarrow> string option \<Rightarrow> jval + string \<times> jsnum" where
  "validateAmount xss cfg amt =
     (case amt of
        None \<Rightarrow> Inl (JStr ''Amount is required'')
      | Some a \<Rightarrow>
          if a = [] then Inl (JStr ''Amount is required'')
          else
            (let sanitized = sanitizeInput xss a
             in if \<not> matchAmount sanitized then
                  Inl (JStr ''Amount must be a valid number with up to 2 decimal places'')
                else
                  (let numAmount = parseFloat sanitized
                   in if js_lt numAmount (minAmount cfg) then
                        Inl (JTemplate [Lit ''Minimum amount is '', Interp (minAmount cfg)])
                      else if js_gt numAmount (maxAmount cfg) then
                        Inl (JTemplate [Lit ''Maximum amount is '', Interp (maxAmount cfg)])
                      else Inr (sanitized, numAmount))))"


section \<open>The tier table and the daily sum, in the words of the specification\<close>


definition countedStatus :: "status \<Rightarrow> bool" where
  "countedStatus s = (s \<noteq> REJECTED \<and> s \<noteq> CANCELLED)"

definition dailySum :: "env \<Rightarrow> store \<Rightarrow> nat \<Rightarrow> rat" where
  "dailySum e db uid =
     sum_list (map amount
       (filter (\<lambda>t. userId t = uid \<and> countedStatus (status t)
                    \<and> startOfDay e \<le> createdAt t \<and> createdAt t < startOfDay e + 86400000) db))"

definition total_ok :: "transaction \<Rightarrow> bool" where
  "total_ok t = (totalAmount t = amount t + fees t)"

section \<open>Sample requests\<close>

text \<open>
  The end-to-end scenario of the specification (500.00 USD to John Smith, SWIFT code
  \<^verbatim>\<open>chasus33\<close>), the transaction it creates, a transaction of 49900.00 created the
  same day, and a schema of two rules of \<^verbatim>\<open>createPaymentSchema\<close> with a body that
  violates both.
\<close>

definition default_config :: config where
  "default_config = \<lparr>MIN_PAYMENT_AMOUNT = None, MAX_PAYMENT_AMOUNT = None\<rparr>"

definition sample_env :: env where
  "sample_env =
     \<lparr>clock = 1000000000000, tzOffset = 7200000, freshId = 7, randomHex = ''a1b2c3'',
      reqIp = Some ''10.0.0.1'', reqUserAgent = None\<rparr>"

definition sample_body :: body where
  "sample_body =
     [''amount'' \<mapsto> ''500.00'', ''currency'' \<mapsto> ''USD'', ''recipientName'' \<mapsto> ''John Smith'',
      ''recipientAccountNumber'' \<mapsto> ''ABCD12345678'', ''swiftCode'' \<mapsto> ''chasus33'',
      ''recipientBankName'' \<mapsto> ''Chase Bank'']"

definition sample_transaction :: transaction where
  "sample_transaction =
     \<lparr>tid = 7, userId = 1, amount = 500, currency = ''USD'', provider = ''SWIFT'',
      recipientName = ''John Smith'', recipientAccountNumber = ''ABCD12345678'',
      recipientBankCode = ''CHASUS33'', swiftCode = ''CHASUS33'',
      recipientBankName = ''Chase Bank'', recipientBankAddress = None, purpose = None,
      reference = None, status = PENDING, fees = 15, totalAmount = 515,
      verificationCode = Some ''A1B2C3'', verifiedAt = None, processedAt = None,
      completedAt = None, rejectionReason = None, ipAddress = Some ''10.0.0.1'',
      userAgent = None, createdAt = 1000000000000, updatedAt = 1000000000000\<rparr>"

definition sample_large :: transaction where
  "sample_large = sample_transaction\<lparr>tid := 6, amount := 49900, fees := 50, totalAmount := 49950\<rparr>"




section \<open>Auxiliary facts\<close>

subsection \<open>Saving and transitions\<close>

lemma pre_save_total_ok: "total_ok (pre_save e t)"
  by (simp add: total_ok_def pre_save_def)





lemma transition_status: "status (fst (transition_op e tr t db)) = target tr"
  by (cases tr)
     (simp_all add: markAsVerified_def markAsProcessing_def markAsCompleted_def
        markAsRejected_def markAsCancelled_def save_def pre_save_def Let_def)

subsection \<open>Creation and the payment handler\<close>







subsection \<open>The daily sum\<close>

lemma foldl_amount: "foldl (\<lambda>sum tx. sum + amount tx) z txs = z + sum_list (map amount txs)"
  by (induction txs arbitrary: z) (simp_all add: add.assoc)

lemma countedStatus_set:
  "(s \<in> set [PENDING, VERIFIED, PROCESSING, COMPLETED]) = countedStatus s"
  by (cases s) (simp_all add: countedStatus_def)

lemma todayTotal_dailySum: "todayTotal (todayTransactions e db uid) = dailySum e db uid"
  by (simp add: todayTotal_def todayTransactions_def dailySum_def foldl_amount nextDay_def
        Let_def countedStatus_set del: set_simps)

subsection \<open>Schema validation\<close>





subsection \<open>Lookups\<close>

lemma find_None: "(find P xs = None) = (\<forall>x\<in>set xs. \<not> P x)"
  by (induction xs) auto

lemma findOne_other_user:
  assumes "distinct (map tid db)" "t \<in> set db" "userId t \<noteq> uid"
  shows "findOne db (tid t) uid = None"
proof -
  have "\<forall>d\<in>set db. tid d = tid t \<longrightarrow> d = t"
    using assms(1,2) by (meson distinct_map inj_onD)
  with assms(3) show ?thesis by (auto simp: findOne_def find_None)
qed

lemma findOne_Some:
  "findOne db i uid = Some t \<Longrightarrow> t \<in> set db \<and> tid t = i \<and> userId t = uid"
  by (auto simp: findOne_def find_Some_iff)

lemma findOne_own:
  assumes "distinct (map tid db)" and "t \<in> set db"
  shows "findOne db (tid t) (userId t) = Some t"
  using assms unfolding findOne_def
  by (induction db) (auto simp: image_iff)

lemma findOne_after_save:
  assumes "findOne db i uid = Some t" "tid t' = i" "userId t' = uid"
  shows "findOne (map (\<lambda>d. if tid d = i then t' else d) db) i uid = Some t'"
  using assms
  unfolding findOne_def
  by (induction db) (auto split: if_splits)


subsection \<open>Trimming and upper-casing\<close>















subsection \<open>Numbers and limits\<close>

lemmas number_eval = parseFloatOpt_def parseFloat_def isWhiteSpace_def isDigit_def digitsVal_def
  digitVal_def scale10_def exponentPart_def

lemma parse_samples:
  "parseFloat ''500.00'' = Fin 500"
  "parseFloat ''999.99'' = Fin (99999 / 100)"
  "parseFloat ''1000.00'' = Fin 1000"
  "parseFloat ''1000.01'' = Fin (100001 / 100)"
  "parseFloat ''9999.99'' = Fin (999999 / 100)"
  "parseFloat ''10000.00'' = Fin 10000"
  "parseFloat ''10000.01'' = Fin (1000001 / 100)"
  "parseFloat ''100001.00'' = Fin 100001"
  "parseFloat ''0.50'' = Fin (1 / 2)"
  "parseFloat ''200.00'' = Fin 200"
  by (simp_all add: number_eval)

lemma limits_default: "minAmount default_config = Fin 1" "maxAmount default_config = Fin 100000"
  by (simp_all add: minAmount_def maxAmount_def default_config_def parseFloatOpt_def num_or_def)


lemma parseFloatOpt_simps: "parseFloatOpt None = NaN" "parseFloatOpt (Some s) = parseFloat s"
  by (simp_all add: parseFloatOpt_def)

subsection \<open>Cancelling and the sample payment\<close>

lemma markAsCancelled_result:
  "markAsCancelled e t db = (t', db') \<Longrightarrow>
     status t' = CANCELLED \<and> tid t' = tid t \<and> userId t' = userId t
     \<and> db' = map (\<lambda>d. if tid d = tid t then t' else d) db"
  by (auto simp: markAsCancelled_def save_def pre_save_def Let_def)

lemma findOne_sample: "findOne [sample_transaction] 7 1 = Some sample_transaction"
  by (simp add: findOne_def sample_transaction_def)

lemma findOne_sample_verified:
  "findOne [sample_transaction\<lparr>status := VERIFIED\<rparr>] 7 1 = Some (sample_transaction\<lparr>status := VERIFIED\<rparr>)"
  by (simp add: findOne_def sample_transaction_def)






lemma transition_store:
  "snd (transition_op e tr t db)
   = map (\<lambda>d. if tid d = tid t then fst (transition_op e tr t db) else d) db"
  by (cases tr)
     (simp_all add: markAsVerified_def markAsProcessing_def markAsCompleted_def
        markAsRejected_def markAsCancelled_def save_def pre_save_def Let_def)


subsection \<open>Fees and SWIFT codes\<close>




subsection \<open>The daily limit\<close>

lemma daily_limit_rejection:
  assumes "parseFloatOpt (b ''amount'') = Fin a"
    and "\<not> js_lt (Fin a) (minAmount cfg)" and "\<not> js_gt (Fin a) (maxAmount cfg)"
    and "dailySum e db uid + a > 50000"
  shows "make_payment cfg e db uid b
         = (failure 400 (JStr ''Daily transaction limit exceeded''), db)"
  using assms
  by (simp add: make_payment_def todayTotal_dailySum dailyLimit_def js_gt_def)




lemma sample_large_sum: "dailySum sample_env [sample_large] 1 = 49900"
  by (simp add: dailySum_def sample_large_def sample_transaction_def sample_env_def
        startOfDay_def countedStatus_def)


lemma sample_amounts:
  "parseFloatOpt ((sample_body(''amount'' \<mapsto> ''200.00'')) ''amount'') = Fin 200"
  "parseFloatOpt ((sample_body(''amount'' \<mapsto> ''100001.00'')) ''amount'') = Fin 100001"
  "parseFloatOpt (sample_body ''amount'') = Fin 500"
  by (simp_all add: parseFloatOpt_simps parse_samples sample_body_def)

lemma in_range_default:
  "1 \<le> a \<Longrightarrow> a \<le> 100000 \<Longrightarrow>
     \<not> js_lt (Fin a) (minAmount default_config) \<and> \<not> js_gt (Fin a) (maxAmount default_config)"
  by (simp add: limits_default js_gt_def)

subsection \<open>Collecting and failing fast\<close>









subsection \<open>Field validators\<close>

lemma validateAmount_out_of_range:
  assumes "amt = Some a" and "a \<noteq> []"
    and "js_lt (parseFloat (sanitizeInput xss a)) (minAmount cfg)
         \<or> js_gt (parseFloat (sanitizeInput xss a)) (maxAmount cfg)"
  shows "\<exists>m. validateAmount xss cfg amt = Inl m"
  using assms by (auto simp: validateAmount_def Let_def)







section \<open>The invariant of the total\<close>



section \<open>Fees\<close>



section \<open>The daily limit\<close>




section \<open>Guards of the transitions\<close>

text \<open>
  Claim C4, as stated, fails: \<^verbatim>\<open>markAsVerified\<close> on a COMPLETED transaction does not
  fail; it sets the status to VERIFIED and persists it.
\<close>

theorem transition_guard_counterexample:
  "status (sample_transaction\<lparr>status := COMPLETED\<rparr>) = COMPLETED
   \<and> status (fst (markAsVerified sample_env (sample_transaction\<lparr>status := COMPLETED\<rparr>)
                    [sample_transaction\<lparr>status := COMPLETED\<rparr>])) = VERIFIED
   \<and> map status (snd (markAsVerified sample_env (sample_transaction\<lparr>status := COMPLETED\<rparr>)
                    [sample_transaction\<lparr>status := COMPLETED\<rparr>])) = [VERIFIED]"
  by (simp add: markAsVerified_def save_def pre_save_def Let_def)

text \<open>
  Claim C4, amended. Only the cancel route guards its transition: on a transaction of the
  requesting user whose status is not PENDING it answers with status 400 and leaves the
  collection unchanged. The transition methods of the model check no precondition: from
  any status each sets its target status and persists the document.
\<close>

theorem only_cancel_route_is_guarded:
  assumes "findOne db i uid = Some t" and "status t \<noteq> PENDING"
  shows "cancel_transaction e db uid i
           = (failure 400 (JStr ''Only pending transactions can be cancelled''), db)
         \<and> status (fst (transition_op e' tr t' db')) = target tr
         \<and> snd (transition_op e' tr t' db')
             = map (\<lambda>d. if tid d = tid t' then fst (transition_op e' tr t' db') else d) db'"
  using assms transition_status [of e' tr t' db'] transition_store [of e' tr t' db']
  by (simp add: cancel_transaction_def)

theorem only_cancel_route_is_guarded_witness:
  "findOne [sample_transaction\<lparr>status := VERIFIED\<rparr>] 7 1
     = Some (sample_transaction\<lparr>status := VERIFIED\<rparr>)
   \<and> status (sample_transaction\<lparr>status := VERIFIED\<rparr>) \<noteq> PENDING
   \<and> cancel_transaction sample_env [sample_transaction\<lparr>status := VERIFIED\<rparr>] 1 7
       = (failure 400 (JStr ''Only pending transactions can be cancelled''),
          [sample_transaction\<lparr>status := VERIFIED\<rparr>])
   \<and> status (fst (transition_op sample_env Complete (sample_transaction\<lparr>status := CANCELLED\<rparr>)
                    [sample_transaction\<lparr>status := CANCELLED\<rparr>])) = COMPLETED"
proof -
  have v: "status (sample_transaction\<lparr>status := VERIFIED\<rparr>) \<noteq> PENDING" by simp
  from only_cancel_route_is_guarded
         [OF findOne_sample_verified v, of sample_env sample_env Complete
            "sample_transaction\<lparr>status := CANCELLED\<rparr>" "[sample_transaction\<lparr>status := CANCELLED\<rparr>]"]
       findOne_sample_verified v
  show ?thesis by simp
qed

section \<open>Cancelling\<close>

text \<open>
  Claim C5. For every transaction of the collection (identifiers are unique), the cancel
  request of its user succeeds (status 200) exactly when the current status is PENDING,
  and the persisted transaction is then CANCELLED; for every other current status the
  request fails with status 400 and the collection, hence the transaction's status, is
  unchanged.
\<close>

theorem cancel_only_when_pending:
  assumes "distinct (map tid db)" and "t \<in> set db"
  shows "(code (fst (cancel_transaction e db (userId t) (tid t))) = 200) = (status t = PENDING)
         \<and> (status t = PENDING \<longrightarrow>
              (\<exists>t'. findOne (snd (cancel_transaction e db (userId t) (tid t))) (tid t) (userId t)
                      = Some t'
                    \<and> status t' = CANCELLED))
         \<and> (status t \<noteq> PENDING \<longrightarrow>
              cancel_transaction e db (userId t) (tid t)
                = (failure 400 (JStr ''Only pending transactions can be cancelled''), db))"
proof -
  let ?i = "tid t" and ?uid = "userId t"
  note f = findOne_own [OF assms]
  obtain t' db' where m: "markAsCancelled e t db = (t', db')"
    by (cases "markAsCancelled e t db")
  note r = markAsCancelled_result [OF m]
  have found: "findOne db' ?i ?uid = Some t'"
    using findOne_after_save [OF f, of t'] r by simp
  show ?thesis
  proof (cases "status t = PENDING")
    case True
    then have "cancel_transaction e db ?uid ?i
                 = (Response 200
                      [(''success'', JBool True),
                       (''message'', JStr ''Transaction cancelled successfully''),
                       (''data'', JObj [(''transaction'',
                          JObj [(''id'', JId (tid t')), (''status'', JStatus (status t'))])])],
                    db')"
      using f m by (simp add: cancel_transaction_def)
    with True found r show ?thesis by simp
  next
    case False
    then show ?thesis using f by (simp add: cancel_transaction_def failure_def)
  qed
qed

theorem cancel_only_when_pending_witness:
  "distinct (map tid [sample_transaction]) \<and> sample_transaction \<in> set [sample_transaction]
   \<and> status sample_transaction = PENDING
   \<and> code (fst (cancel_transaction sample_env [sample_transaction] 1 7)) = 200
   \<and> (\<exists>t'. findOne (snd (cancel_transaction sample_env [sample_transaction] 1 7)) 7 1 = Some t'
          \<and> status t' = CANCELLED)
   \<and> distinct (map tid [sample_transaction\<lparr>status := VERIFIED\<rparr>])
   \<and> sample_transaction\<lparr>status := VERIFIED\<rparr> \<in> set [sample_transaction\<lparr>status := VERIFIED\<rparr>]
   \<and> status (sample_transaction\<lparr>status := VERIFIED\<rparr>) \<noteq> PENDING
   \<and> cancel_transaction sample_env [sample_transaction\<lparr>status := VERIFIED\<rparr>] 1 7
       = (failure 400 (JStr ''Only pending transactions can be cancelled''),
          [sample_transaction\<lparr>status := VERIFIED\<rparr>])"
proof -
  have d1: "distinct (map tid [sample_transaction])" by simp
  have m1: "sample_transaction \<in> set [sample_transaction]" by simp
  have d2: "distinct (map tid [sample_transaction\<lparr>status := VERIFIED\<rparr>])" by simp
  have m2: "sample_transaction\<lparr>status := VERIFIED\<rparr> \<in> set [sample_transaction\<lparr>status := VERIFIED\<rparr>]"
    by simp
  have p: "status sample_transaction = PENDING" by (simp add: sample_transaction_def)
  have v: "status (sample_transaction\<lparr>status := VERIFIED\<rparr>) \<noteq> PENDING" by simp
  have ids: "tid sample_transaction = 7" "userId sample_transaction = 1"
    by (simp_all add: sample_transaction_def)
  from cancel_only_when_pending [OF d1 m1, of sample_env] p ids
  have a: "code (fst (cancel_transaction sample_env [sample_transaction] 1 7)) = 200"
    "\<exists>t'. findOne (snd (cancel_transaction sample_env [sample_transaction] 1 7)) 7 1 = Some t'
          \<and> status t' = CANCELLED"
    by simp_all
  from cancel_only_when_pending [OF d2 m2, of sample_env] v ids
  have b: "cancel_transaction sample_env [sample_transaction\<lparr>status := VERIFIED\<rparr>] 1 7
       = (failure 400 (JStr ''Only pending transactions can be cancelled''),
          [sample_transaction\<lparr>status := VERIFIED\<rparr>])"
    by simp
  from d1 m1 p a d2 m2 v b show ?thesis by blast
qed

section \<open>SWIFT code normalization\<close>



section \<open>Rejection of amounts outside the configured range\<close>



section \<open>What the daily-limit error carries\<close>

text \<open>
  Claim C8, as stated, fails: with 49900.00 submitted today, a submission of 200.00 is
  rejected with a body that has no limit, attempted or available field.
\<close>

theorem daily_limit_error_counterexample:
  "make_payment default_config sample_env [sample_large] 1 (sample_body(''amount'' \<mapsto> ''200.00''))
     = (Response 400
          [(''success'', JBool False), (''error'', JStr ''Daily transaction limit exceeded'')],
        [sample_large])
   \<and> map_of (json (fst (make_payment default_config sample_env [sample_large] 1
                        (sample_body(''amount'' \<mapsto> ''200.00''))))) ''limit'' = None
   \<and> map_of (json (fst (make_payment default_config sample_env [sample_large] 1
                        (sample_body(''amount'' \<mapsto> ''200.00''))))) ''attempted'' = None
   \<and> map_of (json (fst (make_payment default_config sample_env [sample_large] 1
                        (sample_body(''amount'' \<mapsto> ''200.00''))))) ''available'' = None"
proof -
  have r200: "\<not> js_lt (Fin 200) (minAmount default_config)"
             "\<not> js_gt (Fin 200) (maxAmount default_config)"
    using in_range_default [of 200] by simp_all
  have over: "dailySum sample_env [sample_large] 1 + 200 > 50000"
    by (simp add: sample_large_sum del: One_nat_def)
  from daily_limit_rejection
         [where b = "sample_body(''amount'' \<mapsto> ''200.00'')", OF sample_amounts(1) r200 over]
  show ?thesis by (simp add: failure_def)
qed

text \<open>
  Claim C8, amended. A submission rejected for exceeding the daily limit is answered with
  status 400 and a body of exactly two fields, \<^verbatim>\<open>success: false\<close> and the generic
  message \<^verbatim>\<open>Daily transaction limit exceeded\<close>.
\<close>

theorem daily_limit_error_content:
  assumes "parseFloatOpt (b ''amount'') = Fin a"
    and "\<not> js_lt (Fin a) (minAmount cfg)" and "\<not> js_gt (Fin a) (maxAmount cfg)"
    and "dailySum e db uid + a > 50000"
  shows "make_payment cfg e db uid b
           = (Response 400
                [(''success'', JBool False),
                 (''error'', JStr ''Daily transaction limit exceeded'')], db)
         \<and> map fst (json (fst (make_payment cfg e db uid b))) = [''success'', ''error'']"
  using daily_limit_rejection [where b = b, OF assms] by (simp add: failure_def)

theorem daily_limit_error_content_witness:
  "parseFloatOpt ((sample_body(''amount'' \<mapsto> ''200.00'')) ''amount'') = Fin 200
   \<and> \<not> js_lt (Fin 200) (minAmount default_config) \<and> \<not> js_gt (Fin 200) (maxAmount default_config)
   \<and> dailySum sample_env [sample_large] 1 + 200 > 50000
   \<and> make_payment default_config sample_env [sample_large] 1 (sample_body(''amount'' \<mapsto> ''200.00''))
       = (Response 400
            [(''success'', JBool False),
             (''error'', JStr ''Daily transaction limit exceeded'')], [sample_large])
   \<and> map fst (json (fst (make_payment default_config sample_env [sample_large] 1
                          (sample_body(''amount'' \<mapsto> ''200.00'')))))
       = [''success'', ''error'']"
proof -
  have r200: "\<not> js_lt (Fin 200) (minAmount default_config)"
             "\<not> js_gt (Fin 200) (maxAmount default_config)"
    using in_range_default [of 200] by simp_all
  have over: "dailySum sample_env [sample_large] 1 + 200 > 50000"
    by (simp add: sample_large_sum del: One_nat_def)
  from daily_limit_error_content
         [where b = "sample_body(''amount'' \<mapsto> ''200.00'')" and cfg = default_config
            and e = sample_env and db = "[sample_large]" and uid = 1,
          OF sample_amounts(1) r200 over]
       sample_amounts(1) r200 over
  show ?thesis by blast
qed

section \<open>Collecting validation errors\<close>




section \<open>Ownership scoping of the lookups\<close>

text \<open>
  Claim C10. For a transaction of the collection (identifiers are unique) whose owner is
  not the requesting principal, fetching it by identifier and cancelling it are both
  answered with status 404, whatever its status, and the collection is returned as it was.
\<close>

theorem ownership_scoping:
  assumes "distinct (map tid db)" and "t \<in> set db" and "userId t \<noteq> uid"
  shows "get_transaction db uid (tid t) = failure 404 (JStr ''Transaction not found'')
         \<and> cancel_transaction e db uid (tid t)
             = (failure 404 (JStr ''Transaction not found''), db)"
  using findOne_other_user [OF assms]
  by (simp add: get_transaction_def cancel_transaction_def)

theorem ownership_scoping_witness:
  "distinct (map tid [sample_transaction]) \<and> sample_transaction \<in> set [sample_transaction]
   \<and> userId sample_transaction \<noteq> 2
   \<and> get_transaction [sample_transaction] 2 (tid sample_transaction)
       = failure 404 (JStr ''Transaction not found'')
   \<and> cancel_transaction sample_env [sample_transaction] 2 (tid sample_transaction)
       = (failure 404 (JStr ''Transaction not found''), [sample_transaction])"
proof -
  have h1: "distinct (map tid [sample_transaction])" by simp
  have h2: "sample_transaction \<in> set [sample_transaction]" by simp
  have h3: "userId sample_transaction \<noteq> 2" by (simp add: sample_transaction_def)
  from ownership_scoping [OF h1 h2 h3, of sample_env] h1 h2 h3 show ?thesis by blast
qed

end
